theory Spec2Isabelle
  imports Complex_Main
begin

section \<open>Values\<close>

text \<open>
  The converter of \<^verbatim>\<open>mat_to_hdf5.py\<close> receives the dictionary that \<^verbatim>\<open>scipy.io.loadmat\<close>
  returns and inspects each value at run time (\<^verbatim>\<open>isinstance\<close>, \<^verbatim>\<open>value.dtype.type\<close>).
  The values are modelled as a datatype of Python objects.  A \<^verbatim>\<open>numpy.ndarray\<close> is its
  element type, its shape and its elements in row-major order; the elements of an array of
  element type \<^verbatim>\<open>object\<close> are Python objects again.  The numeric scalar type \<open>'n\<close> is left
  open: the program copies numbers and never computes with them.  Four element types are
  told apart: \<^verbatim>\<open>object\<close>, \<^verbatim>\<open>float64\<close> (a numeric type; the program treats every numeric
  type alike), \<^verbatim>\<open>bytes\<close> (numpy's fixed-width byte strings, \<^verbatim>\<open>S\<close>) and \<^verbatim>\<open>str\<close> (numpy's
  fixed-width texts, \<^verbatim>\<open>U\<close>, the form in which \<^verbatim>\<open>loadmat\<close> returns character arrays).

  A Python \<^verbatim>\<open>str\<close> is modelled as a \<^typ>\<open>string\<close> whose characters are the code points below
  256; \<^verbatim>\<open>bytes\<close> is a \<^typ>\<open>string\<close> of bytes.
\<close>

datatype dtype = DObject | DFloat64 | DBytes | DStr

datatype 'n pyobj =
    PyNone
  | PyInt int
  | PyFloat 'n
  | PyStr string
  | PyBytes string
  | PyList "'n pyobj list"
  | NDArray dtype "nat list" "'n pyobj list"

datatype exn = ValueError string | UnicodeEncodeError | IndexError | TypeError | FileNotFoundError

text \<open>A source container (the \<^verbatim>\<open>dict\<close> of \<^verbatim>\<open>loadmat\<close>) in iteration order, and a
  destination container (the datasets of the HDF5 file) in creation order.\<close>

type_synonym 'n mat = "(string \<times> 'n pyobj) list"
type_synonym 'n h5file = "(string \<times> 'n pyobj) list"

text \<open>A printed line: its text, followed by \<^verbatim>\<open>str(e)\<close> of an exception when the
  \<^verbatim>\<open>print\<close> call formats one.\<close>

type_synonym line = "string \<times> exn option"

section \<open>The key transform\<close>

definition is_digit :: "char \<Rightarrow> bool" where
  "is_digit c = (c \<in> set ''0123456789'')"

text \<open>The transform in the words of the specification: the key without its maximal
  trailing run of decimal digits.\<close>

definition strip_trailing_digits :: "string \<Rightarrow> string" where
  "strip_trailing_digits key = rev (dropWhile is_digit (rev key))"

text \<open>
  The transform of the source, \<^verbatim>\<open>re.sub(r'\d+$', '', key)\<close>.  Without the
  \<^verbatim>\<open>MULTILINE\<close> flag, \<^verbatim>\<open>$\<close> matches at the end of the string and also just before a
  line feed that is the last character of the string.  So a run of digits is removed when
  it ends the key, and also when only a final line feed follows it.  At most one match
  exists, and the leftmost match of the greedy \<^verbatim>\<open>\d+\<close> is the whole run.  Among the code
  points below 256 the class \<^verbatim>\<open>\d\<close> holds the ten ASCII digits only.
\<close>

definition re_sub_trailing_digits :: "string \<Rightarrow> string" where
  "re_sub_trailing_digits key =
     (if key \<noteq> [] \<and> last key = CHR 0x0A \<and> butlast key \<noteq> [] \<and> is_digit (last (butlast key))
      then strip_trailing_digits (butlast key) @ [CHR 0x0A]
      else strip_trailing_digits key)"

definition reserved :: "string list" where
  "reserved = [''__header__'', ''__version__'', ''__globals__'']"

section \<open>Flattening a nested text array\<close>

text \<open>
  \<^verbatim>\<open>for item in arr\<close> over an array walks its first axis: the elements of a
  one-dimensional array, the sub-arrays of a higher-dimensional one; a zero-dimensional
  array raises \<^verbatim>\<open>TypeError\<close>.
\<close>

fun iter_ndarray :: "dtype \<Rightarrow> nat list \<Rightarrow> 'n pyobj list \<Rightarrow> exn + 'n pyobj list" where
  "iter_ndarray d [] xs = Inl TypeError"
| "iter_ndarray d [n] xs = Inr (take n xs)"
| "iter_ndarray d (n # ds) xs =
     Inr (map (\<lambda>i. NDArray d ds (take (prod_list ds) (drop (i * prod_list ds) xs))) [0..<n])"

fun py_iter :: "'n pyobj \<Rightarrow> exn + 'n pyobj list" where
  "py_iter (NDArray d sh xs) = iter_ndarray d sh xs"
| "py_iter (PyList xs) = Inr xs"
| "py_iter (PyStr s) = Inr (map (\<lambda>c. PyStr [c]) s)"
| "py_iter (PyBytes s) = Inr (map (\<lambda>c. PyInt (of_char c)) s)"
| "py_iter PyNone = Inl TypeError"
| "py_iter (PyInt i) = Inl TypeError"
| "py_iter (PyFloat x) = Inl TypeError"

text \<open>\<^verbatim>\<open>item[0]\<close>: the first element of a sequence, \<^verbatim>\<open>IndexError\<close> when there is none
  (also for a zero-dimensional array), \<^verbatim>\<open>TypeError\<close> for an object without indexing.\<close>

fun getitem0 :: "'n pyobj \<Rightarrow> exn + 'n pyobj" where
  "getitem0 PyNone = Inl TypeError"
| "getitem0 (PyInt i) = Inl TypeError"
| "getitem0 (PyFloat x) = Inl TypeError"
| "getitem0 v =
     (case py_iter v of
        Inl e \<Rightarrow> Inl IndexError
      | Inr [] \<Rightarrow> Inl IndexError
      | Inr (x # xs) \<Rightarrow> Inr x)"

text \<open>A list comprehension: the results in order, or the first exception.\<close>

fun comprehension :: "('a \<Rightarrow> exn + 'b) \<Rightarrow> 'a list \<Rightarrow> exn + 'b list" where
  "comprehension g [] = Inr []"
| "comprehension g (x # xs) =
     (case g x of
        Inl e \<Rightarrow> Inl e
      | Inr y \<Rightarrow> (case comprehension g xs of Inl e \<Rightarrow> Inl e | Inr ys \<Rightarrow> Inr (y # ys)))"

definition is_ascii :: "string \<Rightarrow> bool" where
  "is_ascii s = list_all (\<lambda>c. (of_char c :: nat) < 128) s"

definition rstrip_nul :: "string \<Rightarrow> string" where
  "rstrip_nul s = rev (dropWhile (\<lambda>c. c = CHR 0x00) (rev s))"

fun str_value :: "'n pyobj \<Rightarrow> string option" where
  "str_value (PyStr s) = Some s"
| "str_value v = None"

text \<open>
  \<^verbatim>\<open>np.array(flat_list, dtype='S')\<close>.  For a list of \<^verbatim>\<open>str\<close> numpy builds a
  one-dimensional array of fixed-width byte strings: each text is encoded with the ASCII
  codec (\<^verbatim>\<open>UnicodeEncodeError\<close> on a code point above 127), and an entry of a fixed-width
  array reads back without its trailing zero bytes.  What numpy does with a list that
  holds anything but \<^verbatim>\<open>str\<close> (numbers, nested arrays, ragged items) is not modelled: it is
  the parameter \<open>np_other\<close>, and every theorem below holds for every such function.
\<close>

definition np_array_S ::
  "('n pyobj list \<Rightarrow> exn + 'n pyobj) \<Rightarrow> 'n pyobj list \<Rightarrow> exn + 'n pyobj" where
  "np_array_S np_other flat_list =
     (case those (map str_value flat_list) of
        Some texts \<Rightarrow>
          (if list_all is_ascii texts
           then Inr (NDArray DBytes [length texts] (map (\<lambda>t. PyBytes (rstrip_nul t)) texts))
           else Inl UnicodeEncodeError)
      | None \<Rightarrow> np_other flat_list)"

definition convert_strings_to_utf8 ::
  "('n pyobj list \<Rightarrow> exn + 'n pyobj) \<Rightarrow> 'n pyobj \<Rightarrow> exn + 'n pyobj" where
  "convert_strings_to_utf8 np_other arr =
     (case py_iter arr of
        Inl e \<Rightarrow> Inl e
      | Inr items \<Rightarrow>
          (case comprehension getitem0 items of
             Inl e \<Rightarrow> Inl e
           | Inr flat_list \<Rightarrow> np_array_S np_other flat_list))"

section \<open>The destination file\<close>

text \<open>
  What h5py can store: it has no HDF5 type for an array of element type \<^verbatim>\<open>object\<close> or
  \<^verbatim>\<open>str\<close> and raises \<^verbatim>\<open>TypeError\<close> for one.  The other data the program passes are arrays
  of numbers or of byte strings, and byte-string scalars.
\<close>

fun h5_storable :: "'n pyobj \<Rightarrow> bool" where
  "h5_storable (NDArray d sh xs) = (d \<noteq> DObject \<and> d \<noteq> DStr)"
| "h5_storable v = True"

text \<open>
  \<^verbatim>\<open>f.create_dataset(key, data=...)\<close> on an open \<^verbatim>\<open>h5py.File\<close>: \<^verbatim>\<open>TypeError\<close> for the empty
  name and for data that cannot be stored, \<^verbatim>\<open>ValueError\<close> for a name that is already in the
  file; otherwise the dataset is added under the name.  The file is the sequence of the
  calls that succeeded: the name as it was passed and the object passed as data.  A name is
  taken whole: the groups that h5py makes for a name with a slash, and how it lays the data
  out in the file, are outside the model.
\<close>

definition create_dataset :: "'n h5file \<Rightarrow> string \<Rightarrow> 'n pyobj \<Rightarrow> exn + 'n h5file" where
  "create_dataset f name data =
     (if name = [] \<or> \<not> h5_storable data then Inl TypeError
      else if name \<in> fst ` set f
      then Inl (ValueError ''Unable to create dataset (name already exists)'')
      else Inr (f @ [(name, data)]))"

text \<open>\<^verbatim>\<open>np.string_(value)\<close> of a \<^verbatim>\<open>str\<close>: its ASCII encoding as a numpy byte string,
  which reads without its trailing zero bytes.\<close>

definition np_string :: "string \<Rightarrow> exn + 'n pyobj" where
  "np_string s = (if is_ascii s then Inr (PyBytes (rstrip_nul s)) else Inl UnicodeEncodeError)"

section \<open>The entry transcoder\<close>

fun is_ndarray :: "'n pyobj \<Rightarrow> bool" where
  "is_ndarray (NDArray d sh xs) = True"
| "is_ndarray v = False"

fun is_object_array :: "'n pyobj \<Rightarrow> bool" where
  "is_object_array (NDArray d sh xs) = (d = DObject)"
| "is_object_array v = False"

fun is_str :: "'n pyobj \<Rightarrow> bool" where
  "is_str (PyStr s) = True"
| "is_str v = False"

text \<open>
  The body of the loop of \<^verbatim>\<open>convert_mat_to_hdf5\<close> after the key is mapped.  The state is
  the open file and the lines printed so far.  \<open>Inl\<close> is an exception that leaves the loop;
  the \<^verbatim>\<open>try\<close> of the first branch turns every exception of the flattening and of its
  \<^verbatim>\<open>create_dataset\<close> into a printed line.
\<close>

definition could_not_convert :: "string \<Rightarrow> exn \<Rightarrow> line" where
  "could_not_convert key e = (''Could not convert '' @ key @ '' to UTF-8 strings: '', Some e)"

definition write_entry ::
  "('n pyobj list \<Rightarrow> exn + 'n pyobj) \<Rightarrow> 'n h5file \<times> line list \<Rightarrow> string \<Rightarrow> 'n pyobj
     \<Rightarrow> exn + ('n h5file \<times> line list)" where
  "write_entry np_other st key v =
     (if is_object_array v then
        (case convert_strings_to_utf8 np_other v of
           Inl e \<Rightarrow> Inr (fst st, snd st @ [could_not_convert key e])
         | Inr utf8_strings \<Rightarrow>
             (case create_dataset (fst st) key utf8_strings of
                Inl e \<Rightarrow> Inr (fst st, snd st @ [could_not_convert key e])
              | Inr f \<Rightarrow> Inr (f, snd st)))
      else if is_ndarray v \<or> is_str v then
        (case (case v of PyStr s \<Rightarrow> np_string s | _ \<Rightarrow> Inr v) of
           Inl e \<Rightarrow> Inl e
         | Inr data \<Rightarrow>
             (case create_dataset (fst st) key data of
                Inl e \<Rightarrow> Inl e
              | Inr f \<Rightarrow> Inr (f, snd st)))
      else Inr st)"

definition loop_body ::
  "('n pyobj list \<Rightarrow> exn + 'n pyobj) \<Rightarrow> 'n h5file \<times> line list \<Rightarrow> string \<times> 'n pyobj
     \<Rightarrow> exn + ('n h5file \<times> line list)" where
  "loop_body np_other st kv =
     (if fst kv \<in> set reserved then Inr st
      else write_entry np_other st (re_sub_trailing_digits (fst kv)) (snd kv))"

text \<open>The loop over \<^verbatim>\<open>mat.items()\<close>: the exception that ended it, if any, and the state
  reached.\<close>

fun transcode ::
  "('n pyobj list \<Rightarrow> exn + 'n pyobj) \<Rightarrow> 'n h5file \<times> line list \<Rightarrow> 'n mat
     \<Rightarrow> exn option \<times> 'n h5file \<times> line list" where
  "transcode np_other st [] = (None, st)"
| "transcode np_other st (kv # rest) =
     (case loop_body np_other st kv of
        Inl e \<Rightarrow> (Some e, st)
      | Inr st' \<Rightarrow> transcode np_other st' rest)"

text \<open>
  What a run leaves behind: the HDF5 files written, by path, the directories made and the
  lines printed.  \<^verbatim>\<open>h5py.File(output_name, "w")\<close> starts from an empty file whatever was
  at the path, and the \<^verbatim>\<open>with\<close> block closes the file on every way out, so the datasets
  created before an exception stay in it.
\<close>

record 'n world =
  files :: "string \<rightharpoonup> 'n h5file"
  dirs :: "string list"
  stdout :: "line list"

definition convert_mat_to_hdf5 ::
  "('n pyobj list \<Rightarrow> exn + 'n pyobj) \<Rightarrow> string \<Rightarrow> 'n mat \<Rightarrow> 'n world \<Rightarrow> exn option \<times> 'n world" where
  "convert_mat_to_hdf5 np_other output_name mat w =
     (case transcode np_other ([], stdout w) mat of
        (r, f, out) \<Rightarrow> (r, w\<lparr>files := (files w)(output_name \<mapsto> f), stdout := out\<rparr>))"

section \<open>Selecting the source files\<close>

text \<open>
  The file system as \<^verbatim>\<open>get_mat_files\<close> reads it, with \<^verbatim>\<open>loadmat\<close>: what each of the
  library calls answers for a path.
\<close>

record 'n os_env =
  path_exists :: "string \<Rightarrow> bool"
  path_isfile :: "string \<Rightarrow> bool"
  path_isdir :: "string \<Rightarrow> bool"
  listdir :: "string \<Rightarrow> string list"
  loadmat :: "string \<Rightarrow> exn + 'n mat"

definition endswith :: "string \<Rightarrow> string \<Rightarrow> bool" where
  "endswith s suffix =
     (length suffix \<le> length s \<and> drop (length s - length suffix) s = suffix)"

text \<open>\<^verbatim>\<open>os.path.basename\<close>: what follows the last slash.\<close>

definition basename :: "string \<Rightarrow> string" where
  "basename p = rev (takeWhile (\<lambda>c. c \<noteq> CHR ''/'') (rev p))"

text \<open>\<^verbatim>\<open>os.path.splitext(b)[0]\<close> for a name without a slash: the name up to its last dot,
  unless only dots stand before that dot.\<close>

definition splitext_root :: "string \<Rightarrow> string" where
  "splitext_root b =
     (let ext = takeWhile (\<lambda>c. c \<noteq> CHR ''.'') (rev b);
          root = rev (drop (Suc (length ext)) (rev b))
      in if length ext < length b \<and> \<not> list_all (\<lambda>c. c = CHR ''.'') root then root else b)"

text \<open>\<^verbatim>\<open>os.path.join(a, p)\<close> of two components.\<close>

definition path_join :: "string \<Rightarrow> string \<Rightarrow> string" where
  "path_join a p =
     (if p \<noteq> [] \<and> hd p = CHR ''/'' then p
      else if a = [] \<or> last a = CHR ''/'' then a @ p
      else a @ ''/'' @ p)"

text \<open>
  \<^verbatim>\<open>re.match(r'(song[0-9][0-9]_Imputed)(\.mat$)', file_name)\<close>: group 1 when the name is
  \<^verbatim>\<open>song\<close>, two ASCII digits, \<^verbatim>\<open>_Imputed.mat\<close> and then the end of the string or one
  final line feed.
\<close>

definition re_match_song :: "string \<Rightarrow> string option" where
  "re_match_song file_name =
     (if take 4 file_name = ''song''
         \<and> length file_name \<ge> 6 \<and> is_digit (file_name ! 4) \<and> is_digit (file_name ! 5)
         \<and> take 8 (drop 6 file_name) = ''_Imputed''
         \<and> (drop 14 file_name = ''.mat'' \<or> drop 14 file_name = ''.mat'' @ [CHR 0x0A])
      then Some (take 14 file_name) else None)"

text \<open>The loop over \<^verbatim>\<open>os.listdir(source)\<close>, with the list \<open>found\<close> built so far.\<close>

fun scan_dir ::
  "'n os_env \<Rightarrow> string \<Rightarrow> (string \<times> 'n mat) list \<Rightarrow> string list \<Rightarrow> exn + (string \<times> 'n mat) list" where
  "scan_dir os source found [] = Inr found"
| "scan_dir os source found (file_name # rest) =
     (if endswith file_name ''Imputed.mat'' then
        (case re_match_song file_name of
           None \<Rightarrow> scan_dir os source found rest
         | Some name \<Rightarrow>
             (case loadmat os (path_join source file_name) of
                Inl e \<Rightarrow> Inl e
              | Inr mat_content \<Rightarrow> scan_dir os source (found @ [(name, mat_content)]) rest))
      else scan_dir os source found rest)"

definition not_found :: exn where
  "not_found = ValueError ''File or path does not exist''"

definition no_input :: exn where
  "no_input = ValueError ''No valid .mat files found in the specified source.''"

definition get_mat_files :: "'n os_env \<Rightarrow> string \<Rightarrow> exn + (string \<times> 'n mat) list" where
  "get_mat_files os source =
     (if \<not> path_exists os source then Inl not_found
      else
        (case (if path_isfile os source \<and> endswith source ''.mat'' then
                 (case loadmat os source of
                    Inl e \<Rightarrow> Inl e
                  | Inr m \<Rightarrow> Inr [(splitext_root (basename source), m)])
               else if path_isdir os source then scan_dir os source [] (listdir os source)
               else Inr []) of
           Inl e \<Rightarrow> Inl e
         | Inr found \<Rightarrow> if found = [] then Inl no_input else Inr found))"

section \<open>The run\<close>

fun convert_all ::
  "('n pyobj list \<Rightarrow> exn + 'n pyobj) \<Rightarrow> string \<Rightarrow> (string \<times> 'n mat) list \<Rightarrow> 'n world
     \<Rightarrow> exn option \<times> 'n world" where
  "convert_all np_other destination [] w = (None, w)"
| "convert_all np_other destination (mat_file # rest) w =
     (case convert_mat_to_hdf5 np_other
             (path_join destination (fst mat_file @ ''.hdf5'')) (snd mat_file) w of
        (Some e, w') \<Rightarrow> (Some e, w')
      | (None, w') \<Rightarrow> convert_all np_other destination rest w')"

text \<open>\<^verbatim>\<open>os.makedirs\<close> raises \<^verbatim>\<open>FileNotFoundError\<close> for the empty path, which never exists;
  its other failures (permissions, a file in the way) are not modelled.\<close>

definition mat_to_hdf5 ::
  "'n os_env \<Rightarrow> ('n pyobj list \<Rightarrow> exn + 'n pyobj) \<Rightarrow> (string \<times> 'n mat) list \<Rightarrow> string \<Rightarrow> 'n world
     \<Rightarrow> exn option \<times> 'n world" where
  "mat_to_hdf5 os np_other mat_files destination w =
     (if \<not> path_exists os destination then
        (if destination = [] then (Some FileNotFoundError, w)
         else convert_all np_other destination mat_files (w\<lparr>dirs := dirs w @ [destination]\<rparr>))
      else convert_all np_other destination mat_files w)"

text \<open>\<^verbatim>\<open>except ValueError\<close> catches \<^verbatim>\<open>ValueError\<close> and its subclass
  \<^verbatim>\<open>UnicodeEncodeError\<close>.\<close>

fun is_ValueError :: "exn \<Rightarrow> bool" where
  "is_ValueError (ValueError m) = True"
| "is_ValueError UnicodeEncodeError = True"
| "is_ValueError e = False"

definition start :: "'n world" where
  "start = \<lparr>files = Map.empty, dirs = [], stdout = []\<rparr>"

definition except_ValueError :: "exn \<Rightarrow> 'n world \<Rightarrow> exn option \<times> 'n world" where
  "except_ValueError e w =
     (if is_ValueError e then (None, w\<lparr>stdout := stdout w @ [(''Error: '', Some e)]\<rparr>)
      else (Some e, w))"

text \<open>\<^verbatim>\<open>main\<close>, from the parsed arguments: the exception that escapes, if any, and what the
  run wrote and printed.\<close>

definition main ::
  "'n os_env \<Rightarrow> ('n pyobj list \<Rightarrow> exn + 'n pyobj) \<Rightarrow> string \<Rightarrow> string \<Rightarrow> exn option \<times> 'n world" where
  "main os np_other source destination =
     (case get_mat_files os source of
        Inl e \<Rightarrow> except_ValueError e start
      | Inr mat_files \<Rightarrow>
          (case mat_to_hdf5 os np_other mat_files destination start of
             (Some e, w) \<Rightarrow> except_ValueError e w
           | (None, w) \<Rightarrow>
               (None, w\<lparr>stdout := stdout w @ [(''Conversion completed successfully.'', None)]\<rparr>)))"

section \<open>Example inputs\<close>

text \<open>The source container of the scenario of the specification; the value under
  \<^verbatim>\<open>__header__\<close> is left open.\<close>

definition scenario :: "real pyobj \<Rightarrow> real mat" where
  "scenario header =
     [(''__header__'', header),
      (''song01'', NDArray DFloat64 [2, 2] [PyFloat 1, PyFloat 2, PyFloat 3, PyFloat 4]),
      (''song01Name1'', NDArray DObject [2, 1] [PyStr ''alpha'', PyStr ''beta''])]"

text \<open>Two numeric arrays whose keys differ in their trailing digits only.\<close>

definition colliding :: "real mat" where
  "colliding =
     [(''data1'', NDArray DFloat64 [1] [PyFloat 1]),
      (''data2'', NDArray DFloat64 [1] [PyFloat 2])]"

text \<open>Two numeric arrays under keys that are a reserved name followed by digits.\<close>

definition reserved_twice :: "real mat" where
  "reserved_twice =
     [(''__header__1'', NDArray DFloat64 [1] [PyFloat 1]),
      (''__header__2'', NDArray DFloat64 [1] [PyFloat 2])]"

text \<open>A file system with one directory, \<^verbatim>\<open>data\<close>, that holds the file \<^verbatim>\<open>notes.txt\<close>
  and nothing else.\<close>

definition example_env :: "real os_env" where
  "example_env =
     \<lparr>path_exists = (\<lambda>p. p = ''data''),
      path_isfile = (\<lambda>p. False),
      path_isdir = (\<lambda>p. p = ''data''),
      listdir = (\<lambda>p. if p = ''data'' then [''notes.txt''] else []),
      loadmat = (\<lambda>p. Inl (ValueError ''Unknown mat file type''))\<rparr>"

section \<open>Facts about the key transform\<close>

lemma re_sub_no_newline:
  "key = [] \<or> last key \<noteq> CHR 0x0A \<Longrightarrow> re_sub_trailing_digits key = strip_trailing_digits key"
  by (auto simp: re_sub_trailing_digits_def)

lemma strip_changed_last_digit:
  assumes "strip_trailing_digits key \<noteq> key"
  shows "key \<noteq> [] \<and> is_digit (last key)"
proof -
  from assms have "dropWhile is_digit (rev key) \<noteq> rev key"
    by (auto simp: strip_trailing_digits_def)
  then have "rev key \<noteq> [] \<and> is_digit (hd (rev key))"
    by (cases "rev key") (auto split: if_splits)
  then show ?thesis by (simp add: hd_rev)
qed

lemma newline_not_digit: "\<not> is_digit (CHR 0x0A)"
  by (simp add: is_digit_def)

lemma re_sub_all_digits:
  assumes "list_all is_digit key"
  shows "re_sub_trailing_digits key = []"
proof -
  from assms have "\<And>x. x \<in> set (rev key) \<Longrightarrow> is_digit x" by (simp add: list_all_iff)
  then have "dropWhile is_digit (rev key) = []" by (simp add: dropWhile_eq_Nil_conv)
  then have s: "strip_trailing_digits key = []" by (simp add: strip_trailing_digits_def)
  from assms newline_not_digit have "key = [] \<or> last key \<noteq> CHR 0x0A"
    by (cases key rule: rev_cases) auto
  then show ?thesis using s by (simp add: re_sub_no_newline)
qed

lemma re_sub_no_trailing_digit:
  assumes "key \<noteq> []" and "\<not> is_digit (last key)" and "last key \<noteq> CHR 0x0A"
  shows "re_sub_trailing_digits key = key"
proof -
  from assms(1,2) have "strip_trailing_digits key = key"
    by (cases key rule: rev_cases) (simp_all add: strip_trailing_digits_def)
  with assms(3) show ?thesis by (simp add: re_sub_no_newline)
qed

section \<open>Facts about the flattening\<close>

lemma comprehension_map:
  "(\<And>i. i \<in> set js \<Longrightarrow> g (F i) = Inr (G i)) \<Longrightarrow> comprehension g (map F js) = Inr (map G js)"
  by (induction js) simp_all

lemma those_str_value: "those (map (str_value \<circ> PyStr) texts) = Some texts"
  by (induction texts) simp_all

lemma flatten_column:
  "comprehension getitem0
     (map (\<lambda>i. NDArray d [1] (take (prod_list [1]) (drop (i * prod_list [1]) xs))) [0..<length xs])
   = Inr xs"
proof -
  have "getitem0 (NDArray d [1] (take (prod_list [1]) (drop (i * prod_list [1]) xs))) = Inr (xs ! i)"
    if "i \<in> set [0..<length xs]" for i
  proof -
    from that have "i < length xs" by simp
    then have "drop i xs = xs ! i # drop (Suc i) xs" by (simp add: Cons_nth_drop_Suc)
    then show ?thesis by simp
  qed
  then have "comprehension getitem0
     (map (\<lambda>i. NDArray d [1] (take (prod_list [1]) (drop (i * prod_list [1]) xs))) [0..<length xs])
     = Inr (map (\<lambda>i. xs ! i) [0..<length xs])"
    by (rule comprehension_map)
  then show ?thesis by (simp add: map_nth)
qed

text \<open>A column of \<open>N\<close> ASCII texts, each in its length-1 wrapper, flattens to the \<open>N\<close>
  byte strings in order.\<close>

lemma flatten_ascii_column:
  fixes np_other :: "'n pyobj list \<Rightarrow> exn + 'n pyobj"
  assumes "list_all is_ascii texts"
  shows "convert_strings_to_utf8 np_other (NDArray DObject [length texts, 1] (map PyStr texts))
           = Inr (NDArray DBytes [length texts] (map (\<lambda>t. PyBytes (rstrip_nul t)) texts))"
proof -
  let ?xs = "map PyStr texts :: 'n pyobj list"
  have "comprehension getitem0
     (map (\<lambda>i. NDArray DObject [1] (take (prod_list [1]) (drop (i * prod_list [1]) ?xs)))
        [0..<length ?xs])
   = Inr ?xs"
    by (rule flatten_column)
  then show ?thesis using assms
    by (simp add: convert_strings_to_utf8_def np_array_S_def those_str_value)
qed

section \<open>Facts about the loop\<close>

lemma write_entry_grows:
  "write_entry np (f, out) k v = Inr (f', out') \<Longrightarrow>
     f' = f \<or> (\<exists>d. f' = f @ [(k, d)] \<and> k \<notin> fst ` set f)"
  by (auto simp: write_entry_def create_dataset_def split: sum.splits if_splits pyobj.splits)

lemma loop_body_grows:
  "loop_body np (f, out) (sk, v) = Inr (f', out') \<Longrightarrow>
     f' = f \<or> (sk \<notin> set reserved \<and> re_sub_trailing_digits sk \<notin> fst ` set f
               \<and> (\<exists>d. f' = f @ [(re_sub_trailing_digits sk, d)]))"
  by (auto simp: loop_body_def dest: write_entry_grows split: if_splits)

lemma transcode_keys:
  "transcode np (f, out) mat = (r, f', out') \<Longrightarrow> k \<in> fst ` set f' \<Longrightarrow>
     k \<in> fst ` set f \<or> (\<exists>sk \<in> fst ` set mat. sk \<notin> set reserved \<and> k = re_sub_trailing_digits sk)"
proof (induction mat arbitrary: f out)
  case Nil
  then show ?case by simp
next
  case (Cons kv rest)
  obtain sk v where kv: "kv = (sk, v)" by (cases kv)
  show ?case
  proof (cases "loop_body np (f, out) kv")
    case (Inl e)
    with Cons.prems show ?thesis by simp
  next
    case (Inr st)
    obtain f1 out1 where st: "st = (f1, out1)" by (cases st)
    from Inr Cons.prems st have "transcode np (f1, out1) rest = (r, f', out')" by simp
    from Cons.IH[OF this Cons.prems(2)] have ih:
      "k \<in> fst ` set f1 \<or> (\<exists>sk \<in> fst ` set rest. sk \<notin> set reserved \<and> k = re_sub_trailing_digits sk)" .
    from Inr kv st have "loop_body np (f, out) (sk, v) = Inr (f1, out1)" by simp
    from loop_body_grows[OF this] have step:
      "f1 = f \<or> (sk \<notin> set reserved \<and> (\<exists>d. f1 = f @ [(re_sub_trailing_digits sk, d)]))"
      by blast
    from ih show ?thesis
    proof
      assume k1: "k \<in> fst ` set f1"
      from step show ?thesis
      proof
        assume "f1 = f"
        with k1 show ?thesis by simp
      next
        assume "sk \<notin> set reserved \<and> (\<exists>d. f1 = f @ [(re_sub_trailing_digits sk, d)])"
        then obtain d where nr: "sk \<notin> set reserved"
          and f1: "f1 = f @ [(re_sub_trailing_digits sk, d)]" by blast
        from k1 f1 have "k \<in> fst ` set f \<or> k = re_sub_trailing_digits sk" by auto
        with nr kv show ?thesis by auto
      qed
    next
      assume "\<exists>sk \<in> fst ` set rest. sk \<notin> set reserved \<and> k = re_sub_trailing_digits sk"
      then show ?thesis by auto
    qed
  qed
qed

lemma transcode_distinct:
  "transcode np (f, out) mat = (r, f', out') \<Longrightarrow> distinct (map fst f) \<Longrightarrow> distinct (map fst f')"
proof (induction mat arbitrary: f out)
  case Nil
  then show ?case by simp
next
  case (Cons kv rest)
  obtain sk v where kv: "kv = (sk, v)" by (cases kv)
  show ?case
  proof (cases "loop_body np (f, out) kv")
    case (Inl e)
    with Cons.prems show ?thesis by auto
  next
    case (Inr st)
    obtain f1 out1 where st: "st = (f1, out1)" by (cases st)
    from Inr Cons.prems st have t: "transcode np (f1, out1) rest = (r, f', out')" by simp
    from Inr kv st have "loop_body np (f, out) (sk, v) = Inr (f1, out1)" by simp
    from loop_body_grows[OF this] Cons.prems(2) have "distinct (map fst f1)" by auto
    from Cons.IH[OF t this] show ?thesis .
  qed
qed


lemma transcode_mono:
  "transcode np (f, out) mat = (r, f', out') \<Longrightarrow> set f \<subseteq> set f'"
proof (induction mat arbitrary: f out)
  case Nil
  then show ?case by simp
next
  case (Cons kv rest)
  obtain sk v where kv: "kv = (sk, v)" by (cases kv)
  show ?case
  proof (cases "loop_body np (f, out) kv")
    case (Inl e)
    with Cons.prems show ?thesis by simp
  next
    case (Inr st)
    obtain f1 out1 where st: "st = (f1, out1)" by (cases st)
    from Inr Cons.prems st have t: "transcode np (f1, out1) rest = (r, f', out')" by simp
    from Inr kv st have "loop_body np (f, out) (sk, v) = Inr (f1, out1)" by simp
    from loop_body_grows[OF this] have "set f \<subseteq> set f1" by auto
    with Cons.IH[OF t] show ?thesis by blast
  qed
qed

lemma loop_body_array:
  assumes "loop_body np (f, out) (k, v) = Inr (f1, out1)"
    and "k \<notin> set reserved" and "is_ndarray v" and "\<not> is_object_array v"
  shows "(re_sub_trailing_digits k, v) \<in> set f1"
  using assms
  by (cases v) (auto simp: loop_body_def write_entry_def create_dataset_def split: if_splits)

lemma transcode_stores:
  "transcode np (f, out) mat = (None, f', out') \<Longrightarrow> (k, v) \<in> set mat \<Longrightarrow>
     k \<notin> set reserved \<Longrightarrow> is_ndarray v \<Longrightarrow> \<not> is_object_array v \<Longrightarrow>
     (re_sub_trailing_digits k, v) \<in> set f'"
proof (induction mat arbitrary: f out)
  case Nil
  then show ?case by simp
next
  case (Cons kv rest)
  show ?case
  proof (cases "loop_body np (f, out) kv")
    case (Inl e)
    with Cons.prems(1) show ?thesis by simp
  next
    case (Inr st)
    obtain f1 out1 where st: "st = (f1, out1)" by (cases st)
    from Inr Cons.prems(1) st have t: "transcode np (f1, out1) rest = (None, f', out')" by simp
    from Cons.prems(2) have "kv = (k, v) \<or> (k, v) \<in> set rest" by auto
    then show ?thesis
    proof
      assume "kv = (k, v)"
      with Inr st have "loop_body np (f, out) (k, v) = Inr (f1, out1)" by simp
      from loop_body_array[OF this Cons.prems(3,4,5)] transcode_mono[OF t]
      show ?thesis by blast
    next
      assume "(k, v) \<in> set rest"
      from Cons.IH[OF t this Cons.prems(3,4,5)] show ?thesis .
    qed
  qed
qed

lemma write_entry_out:
  "write_entry np (f, out) k v =
     (case write_entry np (f, []) k v of Inl e \<Rightarrow> Inl e | Inr (f', new) \<Rightarrow> Inr (f', out @ new))"
  by (simp add: write_entry_def split: sum.splits pyobj.splits)

lemma loop_body_out:
  "loop_body np (f, out) kv =
     (case loop_body np (f, []) kv of Inl e \<Rightarrow> Inl e | Inr (f', new) \<Rightarrow> Inr (f', out @ new))"
  unfolding loop_body_def using write_entry_out[of np f out] by simp

lemma transcode_out:
  "transcode np (f, out) mat =
     (case transcode np (f, []) mat of (r, f', new) \<Rightarrow> (r, f', out @ new))"
proof (induction mat arbitrary: f out)
  case Nil
  then show ?case by simp
next
  case (Cons kv rest)
  show ?case
  proof (cases "loop_body np (f, []) kv")
    case (Inl e)
    then have "loop_body np (f, out) kv = Inl e" by (subst loop_body_out) simp
    with Inl show ?thesis by simp
  next
    case (Inr st)
    obtain f1 new1 where st: "st = (f1, new1)" by (cases st)
    with Inr have a: "loop_body np (f, out) kv = Inr (f1, out @ new1)"
      by (subst loop_body_out) simp
    have "transcode np (f1, out @ new1) rest =
            (case transcode np (f1, []) rest of (r, f', new) \<Rightarrow> (r, f', (out @ new1) @ new))"
      by (rule Cons.IH)
    moreover have "transcode np (f1, new1) rest =
            (case transcode np (f1, []) rest of (r, f', new) \<Rightarrow> (r, f', new1 @ new))"
      by (rule Cons.IH)
    ultimately show ?thesis using a Inr st by (simp split: prod.splits)
  qed
qed

lemma transcode_append:
  "transcode np st (xs @ ys) =
     (case transcode np st xs of (None, st') \<Rightarrow> transcode np st' ys | (Some e, st') \<Rightarrow> (Some e, st'))"
  by (induction xs arbitrary: st) (auto split: sum.splits)

lemma comprehension_fails:
  "x \<in> set xs \<Longrightarrow> g x = Inl e0 \<Longrightarrow> \<exists>e. comprehension g xs = Inl e"
  by (induction xs) (auto split: sum.splits)

lemma convert_result:
  "convert_mat_to_hdf5 np p mat w =
     (fst (transcode np ([], stdout w) mat),
      w\<lparr>files := (files w)(p \<mapsto> fst (snd (transcode np ([], stdout w) mat))),
        stdout := snd (snd (transcode np ([], stdout w) mat))\<rparr>)"
  by (simp add: convert_mat_to_hdf5_def split: prod.splits)

section \<open>Facts about the source selector\<close>

lemma scan_dir_no_match:
  "list_all (\<lambda>n. \<not> (endswith n ''Imputed.mat'' \<and> re_match_song n \<noteq> None)) names \<Longrightarrow>
     scan_dir os source found names = Inr found"
  by (induction names arbitrary: found) (auto split: option.splits)

section \<open>The claims\<close>

lemmas run_defs =
  convert_mat_to_hdf5_def loop_body_def reserved_def write_entry_def
  re_sub_trailing_digits_def strip_trailing_digits_def is_digit_def create_dataset_def
  convert_strings_to_utf8_def np_array_S_def is_ascii_def rstrip_nul_def np_string_def
  could_not_convert_def start_def upt_conv_Cons numeral_2_eq_2

subsection \<open>C1: where the destination keys come from\<close>

text \<open>
  C1, as the code behaves.  For every source container whose keys do not end in a line feed,
  every key of the file that \<^verbatim>\<open>convert_mat_to_hdf5\<close> writes equals some source key, itself
  not one of the three reserved names, with its trailing run of decimal digits removed.
  (The reserved names are tested before the digits are removed, so a reserved name can
  still come out as a destination key; see the counterexample.)
\<close>

theorem C1_destination_keys:
  assumes "\<forall>sk \<in> fst ` set mat. sk = [] \<or> last sk \<noteq> CHR 0x0A"
  shows "\<exists>f. files (snd (convert_mat_to_hdf5 np_other output_name mat w)) output_name = Some f
           \<and> (\<forall>k \<in> fst ` set f.
                 \<exists>sk \<in> fst ` set mat. sk \<notin> set reserved \<and> k = strip_trailing_digits sk)"
proof -
  obtain r f out where t: "transcode np_other ([], stdout w) mat = (r, f, out)"
    by (cases "transcode np_other ([], stdout w) mat")
  then have written: "files (snd (convert_mat_to_hdf5 np_other output_name mat w)) output_name = Some f"
    by (simp add: convert_result)
  have "\<exists>sk \<in> fst ` set mat. sk \<notin> set reserved \<and> k = strip_trailing_digits sk"
    if k: "k \<in> fst ` set f" for k
  proof -
    from transcode_keys[OF t k]
    obtain sk where sk: "sk \<in> fst ` set mat" "sk \<notin> set reserved" "k = re_sub_trailing_digits sk"
      by auto
    from assms sk(1) have "sk = [] \<or> last sk \<noteq> CHR 0x0A" by blast
    then have "re_sub_trailing_digits sk = strip_trailing_digits sk" by (rule re_sub_no_newline)
    with sk show ?thesis by auto
  qed
  with written show ?thesis by blast
qed

text \<open>Witness of C1: the scenario's container has no key that ends in a line feed, and
  the theorem applies to it.\<close>

theorem C1_witness:
  "\<forall>np_other header. \<exists>f.
     files (snd (convert_mat_to_hdf5 np_other ''song01.hdf5'' (scenario header) start)) ''song01.hdf5'' = Some f
     \<and> (\<forall>k \<in> fst ` set f.
           \<exists>sk \<in> fst ` set (scenario header). sk \<notin> set reserved \<and> k = strip_trailing_digits sk)"
proof (intro allI)
  fix np_other :: "real pyobj list \<Rightarrow> exn + real pyobj" and header :: "real pyobj"
  have "\<forall>sk \<in> fst ` set (scenario header). sk = [] \<or> last sk \<noteq> CHR 0x0A"
    by (simp add: scenario_def)
  then show "\<exists>f.
     files (snd (convert_mat_to_hdf5 np_other ''song01.hdf5'' (scenario header) start)) ''song01.hdf5'' = Some f
     \<and> (\<forall>k \<in> fst ` set f.
           \<exists>sk \<in> fst ` set (scenario header). sk \<notin> set reserved \<and> k = strip_trailing_digits sk)"
    by (rule C1_destination_keys)
qed

text \<open>
  C1 as stated fails in its second half: the source key \<^verbatim>\<open>__header__1\<close> is not reserved,
  and its numeric array is written under the reserved name \<^verbatim>\<open>__header__\<close>.
\<close>

theorem C1_counterexample:
  "\<forall>np_other.
     files (snd (convert_mat_to_hdf5 np_other ''out.hdf5''
                  [(''__header__1'', NDArray DFloat64 [1] [PyFloat (1::real)])] start)) ''out.hdf5''
       = Some [(''__header__'', NDArray DFloat64 [1] [PyFloat 1])]
     \<and> ''__header__'' \<in> set reserved"
  by (simp add: run_defs)

subsection \<open>C2: the scenario\<close>

text \<open>
  C2, as the code behaves.  Converting the scenario's source container runs to the end
  without an exception and without a printed line, and the file holds exactly two datasets:
  the numeric array under \<^verbatim>\<open>song\<close>, and the two byte strings under \<^verbatim>\<open>song01Name\<close>.  The
  key \<^verbatim>\<open>song01Name1\<close> loses its trailing digit only; the digits inside the key stay.
\<close>

theorem C2_scenario:
  "convert_mat_to_hdf5 np_other output_name (scenario header) w =
     (None, w\<lparr>files := (files w)(output_name \<mapsto>
        [(''song'', NDArray DFloat64 [2, 2] [PyFloat 1, PyFloat 2, PyFloat 3, PyFloat 4]),
         (''song01Name'', NDArray DBytes [2] [PyBytes ''alpha'', PyBytes ''beta''])])\<rparr>)"
  by (simp add: scenario_def run_defs)

text \<open>
  C2 as stated fails: the destination container of the scenario is not the one with the
  keys \<^verbatim>\<open>song\<close> and \<^verbatim>\<open>songName\<close>.
\<close>

theorem C2_counterexample:
  "\<forall>np_other header.
     files (snd (convert_mat_to_hdf5 np_other ''song01.hdf5'' (scenario header) start)) ''song01.hdf5''
       \<noteq> Some [(''song'', NDArray DFloat64 [2, 2] [PyFloat 1, PyFloat 2, PyFloat 3, PyFloat 4]),
                (''songName'', NDArray DBytes [2] [PyBytes ''alpha'', PyBytes ''beta''])]"
  by (simp add: scenario_def run_defs)

subsection \<open>C3: flattening text that is not ASCII\<close>

text \<open>
  C3 at a nested text array with one element, a length-1 wrapper around the one-character
  text U+00E9.  The wrapper is valid, but numpy encodes with the ASCII codec: the flattening
  raises \<^verbatim>\<open>UnicodeEncodeError\<close>, the \<^verbatim>\<open>except\<close> branch prints the diagnostic, and no dataset
  is written for the entry.
\<close>

theorem C3_non_ascii:
  "convert_strings_to_utf8 np_other (NDArray DObject [1, 1] [PyStr [CHR 0xE9]]) = Inl UnicodeEncodeError
   \<and> convert_mat_to_hdf5 np_other output_name
         [(''names'', NDArray DObject [1, 1] [PyStr [CHR 0xE9]])] w
       = (None, w\<lparr>files := (files w)(output_name \<mapsto> []),
                   stdout := stdout w @ [could_not_convert ''names'' UnicodeEncodeError]\<rparr>)"
  by (simp add: run_defs)

subsection \<open>C4: a flattening that fails\<close>

text \<open>
  C4, as the code behaves.  Take an entry under a key that is not reserved whose value is
  an array of element type \<^verbatim>\<open>object\<close> with at least one item that has no element at index
  0 (an empty wrapper, or an object that cannot be indexed).  Then the flattening raises; the
  loop body catches the exception, prints the diagnostic with the mapped key and the
  exception, and leaves the file as it was; and the conversion of the container ends the
  same way and writes the same file as the conversion of the container without the entry.
\<close>

theorem C4_failed_flattening:
  assumes "is_object_array v" and "py_iter v = Inr items" and "item \<in> set items"
    and "getitem0 item = Inl e0" and "k \<notin> set reserved"
  shows "\<exists>e. convert_strings_to_utf8 np_other v = Inl e
           \<and> loop_body np_other (f, out) (k, v)
               = Inr (f, out @ [could_not_convert (re_sub_trailing_digits k) e])
           \<and> fst (convert_mat_to_hdf5 np_other output_name (xs @ (k, v) # ys) w)
               = fst (convert_mat_to_hdf5 np_other output_name (xs @ ys) w)
           \<and> files (snd (convert_mat_to_hdf5 np_other output_name (xs @ (k, v) # ys) w)) output_name
               = files (snd (convert_mat_to_hdf5 np_other output_name (xs @ ys) w)) output_name"
proof -
  from assms(3,4) have "\<exists>e. comprehension getitem0 items = Inl e"
    by (rule comprehension_fails[where g = getitem0])
  then obtain e1 where "comprehension getitem0 items = Inl e1" ..
  with assms(2) have fails: "convert_strings_to_utf8 np_other v = Inl e1"
    by (simp add: convert_strings_to_utf8_def)
  have step: "loop_body np_other (g, o') (k, v)
                = Inr (g, o' @ [could_not_convert (re_sub_trailing_digits k) e1])" for g o'
    using assms(1,5) fails by (simp add: loop_body_def write_entry_def)
  obtain r1 f1 out1 where t1: "transcode np_other ([], stdout w) xs = (r1, f1, out1)"
    by (cases "transcode np_other ([], stdout w) xs")
  let ?d = "could_not_convert (re_sub_trailing_digits k) e1"
  obtain r2 f2 new2 where t2: "transcode np_other (f1, []) ys = (r2, f2, new2)"
    by (cases "transcode np_other (f1, []) ys")
  have a: "transcode np_other (f1, out1 @ [?d]) ys = (r2, f2, (out1 @ [?d]) @ new2)"
    by (subst transcode_out) (simp add: t2)
  have b: "transcode np_other (f1, out1) ys = (r2, f2, out1 @ new2)"
    by (subst transcode_out) (simp add: t2)
  have with_entry: "transcode np_other ([], stdout w) (xs @ (k, v) # ys)
          = (case r1 of None \<Rightarrow> (r2, f2, (out1 @ [?d]) @ new2) | Some e \<Rightarrow> (Some e, f1, out1))"
    by (simp add: transcode_append t1 step a split: option.splits)
  have without: "transcode np_other ([], stdout w) (xs @ ys)
          = (case r1 of None \<Rightarrow> (r2, f2, out1 @ new2) | Some e \<Rightarrow> (Some e, f1, out1))"
    by (simp add: transcode_append t1 b split: option.splits)
  have "fst (convert_mat_to_hdf5 np_other output_name (xs @ (k, v) # ys) w)
               = fst (convert_mat_to_hdf5 np_other output_name (xs @ ys) w)"
    by (simp add: convert_result with_entry without split: option.splits)
  moreover have "files (snd (convert_mat_to_hdf5 np_other output_name (xs @ (k, v) # ys) w)) output_name
               = files (snd (convert_mat_to_hdf5 np_other output_name (xs @ ys) w)) output_name"
    by (simp add: convert_result with_entry without split: option.splits)
  ultimately show ?thesis using fails step by blast
qed

text \<open>Witness of C4: an array of two empty wrappers under \<^verbatim>\<open>names1\<close>, between the entries
  of the scenario and a text scalar.\<close>

theorem C4_witness:
  "\<forall>np_other. \<exists>e.
     convert_strings_to_utf8 np_other (NDArray DObject [2, 0] ([] :: real pyobj list)) = Inl e
     \<and> loop_body np_other ([], []) (''names1'', NDArray DObject [2, 0] [])
         = Inr ([], [could_not_convert ''names'' e])
     \<and> fst (convert_mat_to_hdf5 np_other ''out.hdf5''
               (scenario PyNone @ (''names1'', NDArray DObject [2, 0] []) # [(''fs'', PyStr ''125'')]) start)
         = fst (convert_mat_to_hdf5 np_other ''out.hdf5'' (scenario PyNone @ [(''fs'', PyStr ''125'')]) start)
     \<and> files (snd (convert_mat_to_hdf5 np_other ''out.hdf5''
               (scenario PyNone @ (''names1'', NDArray DObject [2, 0] []) # [(''fs'', PyStr ''125'')]) start)) ''out.hdf5''
         = files (snd (convert_mat_to_hdf5 np_other ''out.hdf5'' (scenario PyNone @ [(''fs'', PyStr ''125'')]) start)) ''out.hdf5''"
proof (intro allI)
  fix np_other :: "real pyobj list \<Rightarrow> exn + real pyobj"
  let ?v = "NDArray DObject [2, 0] ([] :: real pyobj list)"
  have a: "is_object_array ?v" by simp
  have b: "py_iter ?v = Inr [NDArray DObject [0] [], NDArray DObject [0] []]"
    by (simp add: upt_conv_Cons numeral_2_eq_2)
  have c: "NDArray DObject [0] [] \<in> set [NDArray DObject [0] [], NDArray DObject [0] ([] :: real pyobj list)]"
    by simp
  have d: "getitem0 (NDArray DObject [0] ([] :: real pyobj list)) = Inl IndexError" by simp
  have e: "''names1'' \<notin> set reserved" by (simp add: reserved_def)
  have s: "re_sub_trailing_digits ''names1'' = ''names''"
    by (simp add: re_sub_trailing_digits_def strip_trailing_digits_def is_digit_def)
  from C4_failed_flattening[OF a b c d e, of np_other "[]" "[]" "''out.hdf5''" "scenario PyNone"
         "[(''fs'', PyStr ''125'')]" start]
  show "\<exists>e.
     convert_strings_to_utf8 np_other ?v = Inl e
     \<and> loop_body np_other ([], []) (''names1'', ?v)
         = Inr ([], [could_not_convert ''names'' e])
     \<and> fst (convert_mat_to_hdf5 np_other ''out.hdf5''
               (scenario PyNone @ (''names1'', ?v) # [(''fs'', PyStr ''125'')]) start)
         = fst (convert_mat_to_hdf5 np_other ''out.hdf5'' (scenario PyNone @ [(''fs'', PyStr ''125'')]) start)
     \<and> files (snd (convert_mat_to_hdf5 np_other ''out.hdf5''
               (scenario PyNone @ (''names1'', ?v) # [(''fs'', PyStr ''125'')]) start)) ''out.hdf5''
         = files (snd (convert_mat_to_hdf5 np_other ''out.hdf5'' (scenario PyNone @ [(''fs'', PyStr ''125'')]) start)) ''out.hdf5''"
    by (simp only: s append_Nil)
qed

text \<open>
  C4 as stated fails at the array with the one row \<^verbatim>\<open>["alpha", "gamma"]\<close>: its element is a
  wrapper of length 2, not a length-1 wrapper, yet the conversion raises nothing, prints
  nothing and writes the entry as the one byte string \<^verbatim>\<open>alpha\<close>.
\<close>

theorem C4_counterexample:
  "\<forall>np_other.
     convert_mat_to_hdf5 np_other ''out.hdf5''
        [(''names'', NDArray DObject [1, 2] [PyStr ''alpha'', PyStr ''gamma''])] start
     = (None, \<lparr>files = [''out.hdf5'' \<mapsto> [(''names'', NDArray DBytes [1] [PyBytes ''alpha'' :: real pyobj])]],
               dirs = [], stdout = []\<rparr>)"
  by (simp add: run_defs)

subsection \<open>C5: numeric arrays are copied\<close>

text \<open>
  C5, as the code behaves.  When the conversion of a container runs to its end without an
  exception, every numeric array under a key that is not reserved is in the file under its
  mapped key, as the very object of the source: same element type, same shape, same
  elements.
\<close>

theorem C5_numeric_preserved:
  assumes "convert_mat_to_hdf5 np_other output_name mat w = (None, w')"
    and "(k, NDArray DFloat64 shape elements) \<in> set mat" and "k \<notin> set reserved"
  shows "\<exists>f. files w' output_name = Some f
           \<and> map_of f (re_sub_trailing_digits k) = Some (NDArray DFloat64 shape elements)"
proof -
  obtain r f out where t: "transcode np_other ([], stdout w) mat = (r, f, out)"
    by (cases "transcode np_other ([], stdout w) mat")
  with assms(1) have r: "r = None" and w': "files w' output_name = Some f"
    by (auto simp: convert_result)
  from t r have t': "transcode np_other ([], stdout w) mat = (None, f, out)" by simp
  have "(re_sub_trailing_digits k, NDArray DFloat64 shape elements) \<in> set f"
    by (rule transcode_stores[OF t' assms(2,3)]) simp_all
  moreover have "distinct (map fst f)"
    by (rule transcode_distinct[OF t]) simp
  ultimately have "map_of f (re_sub_trailing_digits k) = Some (NDArray DFloat64 shape elements)"
    by (simp add: map_of_is_SomeI)
  with w' show ?thesis by blast
qed

text \<open>Witness of C5: the numeric array of the scenario, stored under \<^verbatim>\<open>song\<close>.\<close>

theorem C5_witness:
  "\<forall>np_other header. \<exists>f.
     files (snd (convert_mat_to_hdf5 np_other ''song01.hdf5'' (scenario header) start)) ''song01.hdf5'' = Some f
     \<and> map_of f ''song'' = Some (NDArray DFloat64 [2, 2] [PyFloat 1, PyFloat 2, PyFloat 3, PyFloat 4])"
proof (intro allI)
  fix np_other :: "real pyobj list \<Rightarrow> exn + real pyobj" and header :: "real pyobj"
  let ?v = "NDArray DFloat64 [2, 2] [PyFloat 1, PyFloat 2, PyFloat 3, PyFloat (4::real)]"
  obtain w' where
    a: "convert_mat_to_hdf5 np_other ''song01.hdf5'' (scenario header) start = (None, w')"
    by (simp add: scenario_def run_defs)
  have b: "(''song01'', ?v) \<in> set (scenario header)" by (simp add: scenario_def)
  have c: "''song01'' \<notin> set reserved" by (simp add: reserved_def)
  have s: "re_sub_trailing_digits ''song01'' = ''song''"
    by (simp add: re_sub_trailing_digits_def strip_trailing_digits_def is_digit_def)
  from C5_numeric_preserved[OF a b c] a
  show "\<exists>f.
     files (snd (convert_mat_to_hdf5 np_other ''song01.hdf5'' (scenario header) start)) ''song01.hdf5'' = Some f
     \<and> map_of f ''song'' = Some ?v"
    by (simp only: s snd_conv)
qed

text \<open>
  C5 as stated fails when two keys map to the same name: \<^verbatim>\<open>data1\<close> is written under
  \<^verbatim>\<open>data\<close>, the second \<^verbatim>\<open>create_dataset\<close> for \<^verbatim>\<open>data\<close> raises, and the value of the numeric
  entry \<^verbatim>\<open>data2\<close> is not what the file holds under its mapped key.
\<close>

theorem C5_counterexample:
  "\<forall>np_other. \<exists>f.
     files (snd (convert_mat_to_hdf5 np_other ''out.hdf5'' colliding start)) ''out.hdf5'' = Some f
     \<and> (''data2'', NDArray DFloat64 [1] [PyFloat 2]) \<in> set colliding
     \<and> map_of f (re_sub_trailing_digits ''data2'') \<noteq> Some (NDArray DFloat64 [1] [PyFloat 2])"
  by (simp add: colliding_def run_defs)

subsection \<open>C6: the key transform on a key that ends in a line feed\<close>

text \<open>
  C6 at the key \<^verbatim>\<open>a1\<close> followed by a line feed.  The key has no trailing digit, so the
  transform of the claim leaves it unchanged; the regular expression of the source removes
  the digit before the final line feed.
\<close>

theorem C6_trailing_newline:
  "re_sub_trailing_digits (''a1'' @ [CHR 0x0A]) = ''a'' @ [CHR 0x0A]
   \<and> strip_trailing_digits (''a1'' @ [CHR 0x0A]) = ''a1'' @ [CHR 0x0A]"
  by (simp add: re_sub_trailing_digits_def strip_trailing_digits_def is_digit_def)

subsection \<open>C7: the two failures of the source selector\<close>

text \<open>
  C7.  \<^verbatim>\<open>get_mat_files\<close> raises the exception \<open>not_found\<close> when the path does not exist, and
  the exception \<open>no_input\<close> when the path exists but is not a file with the extension
  \<^verbatim>\<open>.mat\<close> and, if it is a directory, none of its names passes both tests of the loop.  The
  two exceptions differ.  In both cases \<^verbatim>\<open>main\<close> returns without an exception, having
  printed the one line \<^verbatim>\<open>Error: \<close> followed by the message, with no file written and no
  directory made.
\<close>

theorem C7_selector_failures:
  "(\<not> path_exists os source \<longrightarrow>
      get_mat_files os source = Inl not_found
      \<and> main os np_other source destination = (None, start\<lparr>stdout := [(''Error: '', Some not_found)]\<rparr>))
   \<and> (path_exists os source \<and> \<not> (path_isfile os source \<and> endswith source ''.mat'')
       \<and> (path_isdir os source \<longrightarrow>
            list_all (\<lambda>n. \<not> (endswith n ''Imputed.mat'' \<and> re_match_song n \<noteq> None)) (listdir os source))
      \<longrightarrow> get_mat_files os source = Inl no_input
          \<and> main os np_other source destination = (None, start\<lparr>stdout := [(''Error: '', Some no_input)]\<rparr>))
   \<and> not_found \<noteq> no_input"
proof (intro conjI impI)
  assume "\<not> path_exists os source"
  then show a: "get_mat_files os source = Inl not_found" by (simp add: get_mat_files_def)
  then show "main os np_other source destination = (None, start\<lparr>stdout := [(''Error: '', Some not_found)]\<rparr>)"
    by (simp add: main_def except_ValueError_def not_found_def start_def)
next
  assume h: "path_exists os source \<and> \<not> (path_isfile os source \<and> endswith source ''.mat'')
       \<and> (path_isdir os source \<longrightarrow>
            list_all (\<lambda>n. \<not> (endswith n ''Imputed.mat'' \<and> re_match_song n \<noteq> None)) (listdir os source))"
  have "scan_dir os source [] (listdir os source) = Inr []" if "path_isdir os source"
    using h that by (simp add: scan_dir_no_match)
  with h show b: "get_mat_files os source = Inl no_input"
    by (auto simp: get_mat_files_def)
  then show "main os np_other source destination = (None, start\<lparr>stdout := [(''Error: '', Some no_input)]\<rparr>)"
    by (simp add: main_def except_ValueError_def no_input_def start_def)
next
  show "not_found \<noteq> no_input" by (simp add: not_found_def no_input_def)
qed

text \<open>Witness of C7: a path that does not exist, and a directory without a matching
  name.\<close>

theorem C7_witness:
  "\<forall>np_other.
     main example_env np_other ''missing'' ''hdf5''
       = (None, \<lparr>files = Map.empty, dirs = [],
                 stdout = [(''Error: '', Some (ValueError ''File or path does not exist''))]\<rparr>)
     \<and> main example_env np_other ''data'' ''hdf5''
       = (None, \<lparr>files = Map.empty, dirs = [],
                 stdout = [(''Error: '', Some (ValueError ''No valid .mat files found in the specified source.''))]\<rparr>)"
proof (intro allI)
  fix np_other :: "real pyobj list \<Rightarrow> exn + real pyobj"
  have a: "\<not> path_exists example_env ''missing''" by (simp add: example_env_def)
  have b: "path_exists example_env ''data'' \<and> \<not> (path_isfile example_env ''data'' \<and> endswith ''data'' ''.mat'')
       \<and> (path_isdir example_env ''data'' \<longrightarrow>
            list_all (\<lambda>n. \<not> (endswith n ''Imputed.mat'' \<and> re_match_song n \<noteq> None)) (listdir example_env ''data''))"
    by (simp add: example_env_def endswith_def)
  from C7_selector_failures[of example_env "''missing''" np_other "''hdf5''", THEN conjunct1, rule_format, OF a]
       C7_selector_failures[of example_env "''data''" np_other "''hdf5''", THEN conjunct2, THEN conjunct1, rule_format, OF b]
  show "main example_env np_other ''missing'' ''hdf5''
       = (None, \<lparr>files = Map.empty, dirs = [],
                 stdout = [(''Error: '', Some (ValueError ''File or path does not exist''))]\<rparr>)
     \<and> main example_env np_other ''data'' ''hdf5''
       = (None, \<lparr>files = Map.empty, dirs = [],
                 stdout = [(''Error: '', Some (ValueError ''No valid .mat files found in the specified source.''))]\<rparr>)"
    by (simp add: start_def not_found_def no_input_def)
qed

subsection \<open>C8: values that are skipped without a word\<close>

text \<open>
  C8, as the code behaves.  An entry whose value is neither an array (of whatever element
  type) nor a \<^verbatim>\<open>str\<close> leaves the state of the loop as it is: no dataset, no printed line.
  The conversion of a container with such an entry is the conversion of the container
  without it.
\<close>

theorem C8_silent_skip:
  assumes "\<not> is_ndarray v" and "\<not> is_str v"
  shows "loop_body np_other st (k, v) = Inr st
         \<and> convert_mat_to_hdf5 np_other output_name (xs @ (k, v) # ys) w
             = convert_mat_to_hdf5 np_other output_name (xs @ ys) w"
proof -
  from assms have "\<not> is_object_array v" by (cases v) simp_all
  with assms have step: "loop_body np_other s (k, v) = Inr s" for s
    by (simp add: loop_body_def write_entry_def)
  then have "transcode np_other s (xs @ (k, v) # ys) = transcode np_other s (xs @ ys)" for s
    by (simp add: transcode_append split: prod.splits option.splits)
  with step show ?thesis by (simp add: convert_mat_to_hdf5_def)
qed

text \<open>Witness of C8: a list under \<^verbatim>\<open>info\<close>, after the entries of the scenario.\<close>

theorem C8_witness:
  "\<forall>np_other header.
     loop_body np_other ([], []) (''info'', PyList [PyNone :: real pyobj]) = Inr ([], [])
     \<and> convert_mat_to_hdf5 np_other ''out.hdf5'' (scenario header @ (''info'', PyList [PyNone]) # []) start
         = convert_mat_to_hdf5 np_other ''out.hdf5'' (scenario header @ []) start"
proof (intro allI)
  fix np_other :: "real pyobj list \<Rightarrow> exn + real pyobj" and header :: "real pyobj"
  have a: "\<not> is_ndarray (PyList [PyNone :: real pyobj])" by simp
  have b: "\<not> is_str (PyList [PyNone :: real pyobj])" by simp
  show "loop_body np_other ([], []) (''info'', PyList [PyNone :: real pyobj]) = Inr ([], [])
     \<and> convert_mat_to_hdf5 np_other ''out.hdf5'' (scenario header @ (''info'', PyList [PyNone]) # []) start
         = convert_mat_to_hdf5 np_other ''out.hdf5'' (scenario header @ []) start"
    by (rule C8_silent_skip[OF a b])
qed

text \<open>
  C8 as stated fails: an array of byte strings is neither an array of element type
  \<^verbatim>\<open>object\<close>, nor a numeric array, nor a text scalar, and it is written.
\<close>

theorem C8_counterexample:
  "\<forall>np_other.
     convert_mat_to_hdf5 np_other ''out.hdf5'' [(''tag'', NDArray DBytes [1] [PyBytes ''ab''])] start
     = (None, \<lparr>files = [''out.hdf5'' \<mapsto> [(''tag'', NDArray DBytes [1] [PyBytes ''ab'' :: real pyobj])]],
               dirs = [], stdout = []\<rparr>)"
  by (simp add: run_defs)

subsection \<open>C10: a key that is reserved only after stripping\<close>

text \<open>
  C10, as the code behaves.  A source key that is not reserved but becomes a reserved name
  when its trailing digits are removed is not skipped: the loop body does for the entry
  what \<^verbatim>\<open>write_entry\<close> does for the stripped name.  When the file has no dataset of the
  stripped name yet, an array of numbers or of byte strings is written under the stripped
  name as it is, an ASCII text as its bytes without trailing zero bytes, and an array of
  element type \<^verbatim>\<open>object\<close> whose flattening gives an array of byte strings as that array.
\<close>

theorem C10_reserved_after_stripping:
  assumes "key \<notin> set reserved" and "strip_trailing_digits key \<in> set reserved"
  shows "loop_body np_other st (key, v) = write_entry np_other st (strip_trailing_digits key) v
         \<and> (strip_trailing_digits key \<notin> fst ` set (fst st) \<longrightarrow>
              (\<forall>d shape elements. v = NDArray d shape elements \<and> (d = DFloat64 \<or> d = DBytes) \<longrightarrow>
                 loop_body np_other st (key, v)
                   = Inr (fst st @ [(strip_trailing_digits key, v)], snd st))
              \<and> (\<forall>s. v = PyStr s \<and> is_ascii s \<longrightarrow>
                    loop_body np_other st (key, v)
                      = Inr (fst st @ [(strip_trailing_digits key, PyBytes (rstrip_nul s))], snd st))
              \<and> (\<forall>shape elements.
                    is_object_array v
                    \<and> convert_strings_to_utf8 np_other v = Inr (NDArray DBytes shape elements) \<longrightarrow>
                    loop_body np_other st (key, v)
                      = Inr (fst st @ [(strip_trailing_digits key, NDArray DBytes shape elements)],
                             snd st)))"
proof -
  let ?k = "strip_trailing_digits key"
  from assms have "?k \<noteq> key" by auto
  then have "key \<noteq> [] \<and> is_digit (last key)" by (rule strip_changed_last_digit)
  with newline_not_digit have "key = [] \<or> last key \<noteq> CHR 0x0A" by auto
  then have eq: "re_sub_trailing_digits key = ?k"
    by (rule re_sub_no_newline)
  with assms(1) have step: "loop_body np_other st (key, v) = write_entry np_other st ?k v"
    by (simp add: loop_body_def)
  from assms(2) have named: "?k \<noteq> []" by (auto simp: reserved_def)
  have for_array: "write_entry np_other st ?k (NDArray d shape elements)
                     = Inr (fst st @ [(?k, NDArray d shape elements)], snd st)"
    if "d = DFloat64 \<or> d = DBytes" "?k \<notin> fst ` set (fst st)" for d shape elements
    using that named by (auto simp: write_entry_def create_dataset_def)
  have for_text: "write_entry np_other st ?k (PyStr s)
                    = Inr (fst st @ [(?k, PyBytes (rstrip_nul s))], snd st)"
    if "is_ascii s" "?k \<notin> fst ` set (fst st)" for s
    using that named by (simp add: write_entry_def create_dataset_def np_string_def)
  have for_object: "write_entry np_other st ?k v
                      = Inr (fst st @ [(?k, NDArray DBytes shape elements)], snd st)"
    if "is_object_array v" "convert_strings_to_utf8 np_other v = Inr (NDArray DBytes shape elements)"
       "?k \<notin> fst ` set (fst st)" for shape elements
    using that named by (simp add: write_entry_def create_dataset_def)
  from step for_array for_text for_object show ?thesis by auto
qed

text \<open>Witness of C10: \<^verbatim>\<open>__header__1\<close> with a numeric array, \<^verbatim>\<open>__version__2\<close> with a text
  and \<^verbatim>\<open>__globals__30\<close> with a nested text array, each on an empty file.\<close>

theorem C10_witness:
  "\<forall>np_other.
     loop_body np_other ([], []) (''__header__1'', NDArray DFloat64 [1] [PyFloat (1::real)])
       = Inr ([(''__header__'', NDArray DFloat64 [1] [PyFloat 1])], [])
     \<and> loop_body np_other ([], []) (''__version__2'', PyStr ''1.0'')
       = Inr ([(''__version__'', PyBytes ''1.0'')], [])
     \<and> loop_body np_other ([], []) (''__globals__30'', NDArray DObject [1, 1] [PyStr ''alpha''])
       = Inr ([(''__globals__'', NDArray DBytes [1] [PyBytes ''alpha''])], [])"
proof (intro allI)
  fix np_other :: "real pyobj list \<Rightarrow> exn + real pyobj"
  have s: "strip_trailing_digits ''__header__1'' = ''__header__''"
      "strip_trailing_digits ''__version__2'' = ''__version__''"
      "strip_trailing_digits ''__globals__30'' = ''__globals__''"
    by (simp_all add: strip_trailing_digits_def is_digit_def)
  have a: "''__header__1'' \<notin> set reserved" "''__version__2'' \<notin> set reserved"
      "''__globals__30'' \<notin> set reserved"
    by (simp_all add: reserved_def)
  have b: "strip_trailing_digits ''__header__1'' \<in> set reserved"
      "strip_trailing_digits ''__version__2'' \<in> set reserved"
      "strip_trailing_digits ''__globals__30'' \<in> set reserved"
    by (simp_all add: s reserved_def)
  have c: "convert_strings_to_utf8 np_other (NDArray DObject [1, 1] [PyStr ''alpha''])
             = Inr (NDArray DBytes [1] [PyBytes ''alpha''])"
    by (simp add: run_defs)
  from C10_reserved_after_stripping[OF a(1) b(1), of np_other "([], [])"
         "NDArray DFloat64 [1] [PyFloat 1]", THEN conjunct2]
  have 1: "loop_body np_other ([], []) (''__header__1'', NDArray DFloat64 [1] [PyFloat (1::real)])
       = Inr ([(''__header__'', NDArray DFloat64 [1] [PyFloat 1])], [])"
    by (simp add: s)
  from C10_reserved_after_stripping[OF a(2) b(2), of np_other "([], [])" "PyStr ''1.0''",
         THEN conjunct2]
  have 2: "loop_body np_other ([], []) (''__version__2'', PyStr ''1.0'')
       = Inr ([(''__version__'', PyBytes ''1.0'')], [])"
    by (simp add: s is_ascii_def rstrip_nul_def)
  from C10_reserved_after_stripping[OF a(3) b(3), of np_other "([], [])"
         "NDArray DObject [1, 1] [PyStr ''alpha'']", THEN conjunct2] c
  have 3: "loop_body np_other ([], []) (''__globals__30'', NDArray DObject [1, 1] [PyStr ''alpha''])
       = Inr ([(''__globals__'', NDArray DBytes [1] [PyBytes ''alpha''])], [])"
    by (simp add: s)
  from 1 2 3 show "loop_body np_other ([], []) (''__header__1'', NDArray DFloat64 [1] [PyFloat (1::real)])
       = Inr ([(''__header__'', NDArray DFloat64 [1] [PyFloat 1])], [])
     \<and> loop_body np_other ([], []) (''__version__2'', PyStr ''1.0'')
       = Inr ([(''__version__'', PyBytes ''1.0'')], [])
     \<and> loop_body np_other ([], []) (''__globals__30'', NDArray DObject [1, 1] [PyStr ''alpha''])
       = Inr ([(''__globals__'', NDArray DBytes [1] [PyBytes ''alpha''])], [])"
    by blast
qed

text \<open>
  C10 as stated fails: \<^verbatim>\<open>__header__2\<close> becomes reserved only after stripping and its value
  is a numeric array, but \<^verbatim>\<open>__header__1\<close> was written under \<^verbatim>\<open>__header__\<close> before it.  The
  second \<^verbatim>\<open>create_dataset\<close> raises, the conversion ends, and the file holds the first array
  only.
\<close>

theorem C10_counterexample:
  "\<forall>np_other.
     ''__header__2'' \<notin> set reserved
     \<and> strip_trailing_digits ''__header__2'' \<in> set reserved
     \<and> fst (convert_mat_to_hdf5 np_other ''out.hdf5'' reserved_twice start)
         = Some (ValueError ''Unable to create dataset (name already exists)'')
     \<and> files (snd (convert_mat_to_hdf5 np_other ''out.hdf5'' reserved_twice start)) ''out.hdf5''
         = Some [(''__header__'', NDArray DFloat64 [1] [PyFloat 1])]"
  by (simp add: reserved_twice_def run_defs)

end
